theory Spec2Isabelle
  imports Main "HOL-Library.Word"
begin

unbundle bit_operations_syntax

section \<open>The logging core of src/err.c\<close>

text \<open>
  The file keeps its configuration in static variables and talks to three sinks: the
  standard error stream, a log file behind a \<open>FILE *\<close>, and syslog. The model passes
  one record, \<open>world\<close>, through every function. Its first eight fields are the static
  variables of err.c under their own names; the others are the part of the C library the
  functions touch. The two mutexes are not modelled: every function runs as one step.
\<close>

subsection \<open>Outcomes of a call\<close>

text \<open>
  A call returns a value, ends the process through \<open>exit\<close>, or runs into behaviour
  the C standard leaves undefined (closing or writing a stream that is not open,
  indexing a table out of range).
\<close>

datatype 'a outcome = Returns 'a | Exits int | Undefined

type_synonym ('s, 'a) prog = "'s \<Rightarrow> 'a outcome \<times> 's"

definition ret :: "'a \<Rightarrow> ('s, 'a) prog" where
  "ret x s = (Returns x, s)"

definition exit_with :: "int \<Rightarrow> ('s, 'a) prog" where
  "exit_with c s = (Exits c, s)"

definition undefined_behaviour :: "('s, 'a) prog" where
  "undefined_behaviour s = (Undefined, s)"

definition andthen :: "('s, 'a) prog \<Rightarrow> ('a \<Rightarrow> ('s, 'b) prog) \<Rightarrow> ('s, 'b) prog" where
  "andthen m f s =
     (case m s of
        (Returns x, s') \<Rightarrow> f x s'
      | (Exits c, s') \<Rightarrow> (Exits c, s')
      | (Undefined, s') \<Rightarrow> (Undefined, s'))"

definition run :: "('s \<Rightarrow> 's) \<Rightarrow> ('s, unit) prog" where
  "run f s = (Returns (), f s)"

definition when_do :: "bool \<Rightarrow> ('s, unit) prog \<Rightarrow> ('s, unit) prog" where
  "when_do b m = (if b then m else ret ())"

subsection \<open>Constants of headers\<close>

text \<open>
  err.h is not among the sources. The constants err.c takes from it are parameters of
  the model: the three destination flags, the levels \<open>E_LOG\<close>, \<open>E_INF\<close> and \<open>E_DBG\<close>,
  and the category \<open>L_MISC\<close>.
\<close>

record err_h =
  LOGDEST_STDERR :: int
  LOGDEST_SYSLOG :: int
  LOGDEST_LOGFILE :: int
  E_LOG :: int
  E_INF :: int
  E_DBG :: int
  L_MISC :: "32 word"

text \<open>
  Modelled from the spec: \<open>TRUE\<close> and \<open>FALSE\<close>, the success and failure status of the
  configuration accessors, which err.c takes from a header that is not among the sources.
\<close>

definition TRUE :: int where "TRUE = 1"
definition FALSE :: int where "FALSE = 0"

text \<open>The constants of \<open>syslog.h\<close>, \<open>stdlib.h\<close> and \<open>limits.h\<close> (Linux).\<close>

definition LOG_ALERT :: int where "LOG_ALERT = 1"
definition LOG_NOTICE :: int where "LOG_NOTICE = 5"
definition LOG_INFO :: int where "LOG_INFO = 6"
definition LOG_DEBUG :: int where "LOG_DEBUG = 7"
definition EXIT_FAILURE :: int where "EXIT_FAILURE = 1"
definition PATH_MAX :: nat where "PATH_MAX = 4096"

definition lvl2syslog :: "int list" where
  "lvl2syslog =
     [LOG_ALERT, LOG_ALERT,
      LOG_NOTICE, LOG_NOTICE, LOG_NOTICE,
      LOG_INFO, LOG_INFO, LOG_INFO, LOG_INFO,
      LOG_DEBUG]"

definition err_categorylist :: "string list" where
  "err_categorylist =
     [''config'', ''webserver'', ''database'', ''scan'', ''query'', ''index'', ''browse'',
      ''playlist'', ''art'', ''daap'', ''main'', ''rend'', ''xml'', ''parse'', ''plugin'',
      ''lock'', ''httpd'', ''rsp'', ''xcode'']"

subsection \<open>The state\<close>

text \<open>
  What reaches the standard error stream and syslog is kept as a list of events, oldest
  first. The log file is kept by content: \<open>files\<close> maps a path to the text of the file,
  \<open>streams\<close> maps an open \<open>FILE *\<close> to the path it writes, and \<open>openable\<close> says for
  which paths \<open>fopen\<close> succeeds. \<open>allocs\<close> foretells the allocations to come: each
  \<open>malloc\<close> or \<open>strdup\<close> takes the head, \<open>False\<close> being a null result, and every
  allocation succeeds once the list is used up.
\<close>

datatype event = Stderr string | Openlog | Syslog int string

type_synonym FILE_ptr = "nat option"

record world =
  err_debuglevel :: int
  err_logdest :: int
  err_filename :: string
  err_file :: FILE_ptr
  err_debugmask :: "32 word"
  err_truncate :: int
  err_syslog_open :: int
  err_threadlist :: "32 word list"
  streams :: "nat \<Rightarrow> string option"
  next_stream :: nat
  files :: "string \<Rightarrow> string option"
  openable :: "string \<Rightarrow> bool"
  allocs :: "bool list"
  strerror_errno :: string
  timebuf_now :: string
  events :: "event list"

subsection \<open>The C library\<close>

definition malloc :: "world \<Rightarrow> bool \<times> world" where
  "malloc s = (case allocs s of [] \<Rightarrow> (True, s) | b # bs \<Rightarrow> (b, s\<lparr>allocs := bs\<rparr>))"

definition fprintf_stderr :: "string \<Rightarrow> world \<Rightarrow> world" where
  "fprintf_stderr msg s = s\<lparr>events := events s @ [Stderr msg]\<rparr>"

definition openlog :: "world \<Rightarrow> world" where
  "openlog s = s\<lparr>events := events s @ [Openlog]\<rparr>"

definition syslog :: "int \<Rightarrow> string \<Rightarrow> world \<Rightarrow> world" where
  "syslog priority msg s = s\<lparr>events := events s @ [Syslog priority msg]\<rparr>"

definition fopen :: "string \<Rightarrow> string \<Rightarrow> world \<Rightarrow> FILE_ptr \<times> world" where
  "fopen path mode s =
     (if \<not> openable s path then (None, s)
      else
        let h = next_stream s;
            kept = (if mode = ''w'' then []
                    else (case files s path of None \<Rightarrow> [] | Some old \<Rightarrow> old))
        in (Some h,
            s\<lparr>streams := (streams s)(h := Some path),
              next_stream := Suc h,
              files := (files s)(path := Some kept)\<rparr>))"

definition fclose :: "FILE_ptr \<Rightarrow> (world, unit) prog" where
  "fclose fp s =
     (case fp of
        None \<Rightarrow> (Undefined, s)
      | Some h \<Rightarrow>
          (case streams s h of
             None \<Rightarrow> (Undefined, s)
           | Some path \<Rightarrow> (Returns (), s\<lparr>streams := (streams s)(h := None)\<rparr>)))"

definition fprintf_file :: "FILE_ptr \<Rightarrow> string \<Rightarrow> (world, unit) prog" where
  "fprintf_file fp msg s =
     (case fp of
        None \<Rightarrow> (Undefined, s)
      | Some h \<Rightarrow>
          (case streams s h of
             None \<Rightarrow> (Undefined, s)
           | Some path \<Rightarrow>
               (Returns (),
                s\<lparr>files := (files s)(path :=
                     Some ((case files s path of None \<Rightarrow> [] | Some old \<Rightarrow> old) @ msg))\<rparr>)))"

text \<open>\<open>%08x\<close>: eight hexadecimal digits, lower case.\<close>

definition hexdigit :: "32 word \<Rightarrow> char" where
  "hexdigit d = ''0123456789abcdef'' ! unat (d AND 15)"

definition hex8 :: "32 word \<Rightarrow> string" where
  "hex8 w = map (\<lambda>i. hexdigit (drop_bit (4 * i) w)) [7, 6, 5, 4, 3, 2, 1, 0]"

subsection \<open>The thread list\<close>

text \<open>
  \<open>err_threadlist\<close> is the chain of nodes behind the static head node, first node
  first. The thread id that \<open>__err_get_threadid\<close> computes for the calling thread is
  the argument \<open>tid\<close> of every function that asks for it. The functions
  \<open>__err_thread_add\<close>, \<open>__err_thread_del\<close> and \<open>__err_thread_check\<close> lose their
  leading underscores here.
\<close>

definition err_thread_add :: "32 word \<Rightarrow> (world, unit) prog" where
  "err_thread_add tid s =
     (case malloc s of
        (False, s1) \<Rightarrow>
          (Exits (- 1), fprintf_stderr ''malloc error in __err_thread_add\<newline>'' s1)
      | (True, s1) \<Rightarrow> (Returns (), s1\<lparr>err_threadlist := tid # err_threadlist s1\<rparr>))"

fun unlink_first :: "32 word \<Rightarrow> 32 word list \<Rightarrow> 32 word list" where
  "unlink_first thread_id [] = []"
| "unlink_first thread_id (current # rest) =
     (if current \<noteq> thread_id then current # unlink_first thread_id rest else rest)"

definition err_thread_del :: "32 word \<Rightarrow> world \<Rightarrow> world" where
  "err_thread_del tid s = s\<lparr>err_threadlist := unlink_first tid (err_threadlist s)\<rparr>"

fun find_thread :: "32 word \<Rightarrow> 32 word list \<Rightarrow> int" where
  "find_thread thread_id [] = FALSE"
| "find_thread thread_id (current # rest) =
     (if current \<noteq> thread_id then find_thread thread_id rest else TRUE)"

definition err_thread_check :: "32 word \<Rightarrow> world \<Rightarrow> int" where
  "err_thread_check tid s = find_thread tid (err_threadlist s)"

subsection \<open>err\_log\<close>

text \<open>
  \<open>msg\<close> is the text that \<open>vsnprintf\<close> makes of the format and its arguments;
  \<open>errbuf\<close> holds 4096 bytes, so 4095 characters of it. The function is cut where the
  source takes and releases its locks: the filter (lines 216 to 222), the guard of
  recursive calls (224 to 235), and the fan-out to syslog (241 to 253), to the file and
  the standard error stream (255 to 273), with the way out (275 to 281).
\<close>

definition filter_rejects :: "int \<Rightarrow> 32 word \<Rightarrow> world \<Rightarrow> bool" where
  "filter_rejects level cat s =
     (if level > 1 then
        (if level > err_debuglevel s then True
         else if cat AND err_debugmask s = 0 then True
         else False)
      else False)"

text \<open>
  The guard yields \<open>None\<close> where the source returns from \<open>err_log\<close>, and the value of
  \<open>syslog_only\<close> where it goes on.
\<close>

definition err_log_guard :: "int \<Rightarrow> 32 word \<Rightarrow> (world, bool option) prog" where
  "err_log_guard level tid s =
     (if err_threadlist s \<noteq> [] \<and> err_thread_check tid s \<noteq> 0 then
        (if level = 0 then
           andthen (err_thread_add tid) (\<lambda>_. ret (Some True)) s
         else ret None s)
      else andthen (err_thread_add tid) (\<lambda>_. ret (Some False)) s)"

definition err_log_syslog :: "err_h \<Rightarrow> int \<Rightarrow> string \<Rightarrow> bool \<Rightarrow> (world, unit) prog" where
  "err_log_syslog H level errbuf syslog_only =
     when_do (level \<le> 1)
       (andthen (run (\<lambda>s. if err_syslog_open s = 0 then openlog s else s)) (\<lambda>_.
        andthen (run (\<lambda>s. s\<lparr>err_syslog_open := 1\<rparr>)) (\<lambda>_.
        andthen (if level > E_DBG H then run (syslog LOG_DEBUG errbuf)
                 else if 0 \<le> level \<and> nat level < length lvl2syslog
                   then run (syslog (lvl2syslog ! nat level) errbuf)
                 else undefined_behaviour) (\<lambda>_.
        when_do (syslog_only \<and> level = 0)
          (andthen (run (fprintf_stderr ''Aborting\<newline>'')) (\<lambda>_.
           exit_with (- 1)))))))"

definition err_log_sinks :: "err_h \<Rightarrow> int \<Rightarrow> string \<Rightarrow> bool \<Rightarrow> 32 word \<Rightarrow> (world, unit) prog" where
  "err_log_sinks H level errbuf syslog_only tid =
     andthen (\<lambda>s.
       when_do (err_logdest s AND LOGDEST_LOGFILE H \<noteq> 0 \<and> err_file s \<noteq> None \<and> \<not> syslog_only)
         (andthen (fprintf_file (err_file s)
                     (timebuf_now s @ '' ('' @ hex8 tid @ ''): '' @ errbuf)) (\<lambda>_.
          when_do (level = 0)
            (fprintf_file (err_file s) (timebuf_now s @ '': Aborting\<newline>'')))) s) (\<lambda>_ s.
       when_do (err_logdest s AND LOGDEST_STDERR H \<noteq> 0 \<or> level = 0)
         (andthen (run (fprintf_stderr errbuf)) (\<lambda>_.
          when_do (level = 0) (run (fprintf_stderr ''Aborting\<newline>'')))) s)"

definition err_log_leave :: "int \<Rightarrow> 32 word \<Rightarrow> (world, unit) prog" where
  "err_log_leave level tid =
     andthen (run (err_thread_del tid)) (\<lambda>_.
     when_do (level = 0) (exit_with EXIT_FAILURE))"

definition err_log_fanout ::
  "err_h \<Rightarrow> int \<Rightarrow> string \<Rightarrow> bool \<Rightarrow> 32 word \<Rightarrow> (world, unit) prog" where
  "err_log_fanout H level errbuf syslog_only tid =
     andthen (err_log_syslog H level errbuf syslog_only) (\<lambda>_.
     andthen (err_log_sinks H level errbuf syslog_only tid) (\<lambda>_.
     err_log_leave level tid))"

definition err_log_dispatch :: "err_h \<Rightarrow> int \<Rightarrow> string \<Rightarrow> 32 word \<Rightarrow> (world, unit) prog" where
  "err_log_dispatch H level msg tid =
     andthen (err_log_guard level tid) (\<lambda>g.
       case g of
         None \<Rightarrow> ret ()
       | Some syslog_only \<Rightarrow> err_log_fanout H level (take 4095 msg) syslog_only tid)"

definition err_log :: "err_h \<Rightarrow> int \<Rightarrow> 32 word \<Rightarrow> string \<Rightarrow> 32 word \<Rightarrow> (world, unit) prog" where
  "err_log H level cat msg tid s =
     (if filter_rejects level cat s then ret () s
      else err_log_dispatch H level msg tid s)"

text \<open>
  Modelled from the spec: the macro \<open>DPRINTF\<close> of err.h, which is not among the
  sources. The spec has the messages of the configuration functions go through the
  normal dispatch path, so the macro is a call of \<open>err_log\<close>.
\<close>

definition DPRINTF :: "err_h \<Rightarrow> int \<Rightarrow> 32 word \<Rightarrow> string \<Rightarrow> 32 word \<Rightarrow> (world, unit) prog" where
  "DPRINTF H level cat msg tid = err_log H level cat msg tid"

subsection \<open>The accessors of the configuration\<close>

definition err_setlevel :: "int \<Rightarrow> world \<Rightarrow> world" where
  "err_setlevel level s = s\<lparr>err_debuglevel := level\<rparr>"

definition err_getlevel :: "world \<Rightarrow> int" where
  "err_getlevel s = err_debuglevel s"

definition err_getdest :: "world \<Rightarrow> int" where
  "err_getdest s = err_logdest s"

text \<open>
  \<open>strncpy\<close> into \<open>err_filename\<close> copies at most \<open>sizeof(err_filename) - 1\<close>
  characters, which is \<open>PATH_MAX\<close>; the last byte of the array stays the zero it was
  initialised with. A failed \<open>fopen\<close> leaves a null pointer in \<open>err_file\<close>.
\<close>

definition err_setlogfile :: "err_h \<Rightarrow> string \<Rightarrow> (world, int) prog" where
  "err_setlogfile H file =
     andthen (\<lambda>s. when_do (err_file s \<noteq> None) (fclose (err_file s)) s) (\<lambda>_ s.
       let mode = (if err_truncate s \<noteq> 0 then ''w'' else ''a'');
           s1 = s\<lparr>err_filename := take PATH_MAX file\<rparr>;
           (fp, s2) = fopen (err_filename s1) mode s1;
           s3 = s2\<lparr>err_file := fp\<rparr>
       in if err_file s3 = None then
            let s4 = fprintf_stderr (''Error opening logfile: '' @ strerror_errno s3) s3;
                s5 = s4\<lparr>err_logdest := err_logdest s4 AND NOT (LOGDEST_LOGFILE H)\<rparr>;
                s6 = (if err_syslog_open s5 = 0 then openlog s5 else s5);
                s7 = syslog (lvl2syslog ! 1) ''Error opening logfile'' s6
            in (Returns FALSE, s7)
          else (Returns TRUE, s3))"

text \<open>
  The argument \<open>truncate\<close> is \<open>trunc\<close> here. \<open>strdup\<close> takes one allocation; its
  result is only freed again, and a null result is skipped. \<open>err_setlogfile\<close> is
  handed \<open>err_filename\<close> itself, and its \<open>strncpy\<close> of the array onto itself is taken
  to leave the array as it is.
\<close>

definition err_settruncate :: "err_h \<Rightarrow> int \<Rightarrow> (world, int) prog" where
  "err_settruncate H trunc s =
     (if err_truncate s = trunc then (Returns TRUE, s)
      else
        let s1 = s\<lparr>err_truncate := trunc\<rparr> in
        if err_truncate s1 \<noteq> 0 \<and> err_file s1 \<noteq> None then
          let (file, s2) = malloc s1 in
          andthen (err_setlogfile H (err_filename s2)) (\<lambda>_. ret TRUE) s2
        else (Returns TRUE, s1))"

definition err_setdest :: "err_h \<Rightarrow> int \<Rightarrow> (world, unit) prog" where
  "err_setdest H destination s =
     (if err_logdest s = destination then (Returns (), s)
      else
        andthen
          (when_do (err_logdest s AND LOGDEST_LOGFILE H \<noteq> 0
                    \<and> \<not> (destination AND LOGDEST_LOGFILE H \<noteq> 0))
             (fclose (err_file s)))
          (\<lambda>_. run (\<lambda>s1. s1\<lparr>err_logdest := destination\<rparr>)) s)"

subsection \<open>err\_reopen\<close>

definition err_reopen :: "err_h \<Rightarrow> 32 word \<Rightarrow> (world, unit) prog" where
  "err_reopen H tid s =
     (if \<not> (err_logdest s AND LOGDEST_LOGFILE H \<noteq> 0) then (Returns (), s)
      else
        andthen (fclose (err_file s)) (\<lambda>_ s1.
          let (fp, s2) = fopen (err_filename s1) ''w'' s1;
              s3 = s2\<lparr>err_file := fp\<rparr>
          in if err_file s3 = None then
               andthen (\<lambda>s4. err_setdest H (err_logdest s4 AND NOT (LOGDEST_LOGFILE H)) s4) (\<lambda>_.
               andthen (\<lambda>s5. err_setdest H (err_logdest s5 OR LOGDEST_SYSLOG H) s5) (\<lambda>_ s6.
               DPRINTF H (E_LOG H) (L_MISC H)
                 (''Could not rotate log file: '' @ strerror_errno s6 @ ''\<newline>'') tid s6)) s3
             else DPRINTF H (E_LOG H) (L_MISC H) ''Rotated logs\<newline>'' tid s3) s)"

subsection \<open>err\_setdebugmask\<close>

text \<open>
  \<open>strtok_r\<close> with the delimiter \<open>,\<close>: it skips the commas in front, yields the
  characters up to the next comma as the token and keeps what follows that comma for the
  next call; \<open>None\<close> is the null pointer it returns when nothing but commas is left.
\<close>

definition strtok_r :: "string \<Rightarrow> (string \<times> string) option" where
  "strtok_r str =
     (let start = dropWhile (\<lambda>c. c = CHR '','') str in
      if start = [] then None
      else Some (takeWhile (\<lambda>c. c \<noteq> CHR '','') start,
                 drop 1 (dropWhile (\<lambda>c. c \<noteq> CHR '','') start)))"

definition tolower :: "char \<Rightarrow> char" where
  "tolower c =
     (let n = (of_char c :: nat) in if 65 \<le> n \<and> n \<le> 90 then char_of (n + 32) else c)"

fun strcasecmp :: "string \<Rightarrow> string \<Rightarrow> int" where
  "strcasecmp [] [] = 0"
| "strcasecmp [] (b # bs) = - int (of_char (tolower b))"
| "strcasecmp (a # cs) [] = int (of_char (tolower a))"
| "strcasecmp (a # cs) (b # bs) =
     (if tolower a = tolower b then strcasecmp cs bs
      else int (of_char (tolower a)) - int (of_char (tolower b)))"

text \<open>
  The inner loop: \<open>rack\<close> is shifted left once for every name passed over;
  \<open>None\<close> is the null entry that ends \<open>err_categorylist\<close>.
\<close>

fun category_scan :: "string list \<Rightarrow> string \<Rightarrow> 32 word \<Rightarrow> 32 word option" where
  "category_scan [] token rack = None"
| "category_scan (name # names) token rack =
     (if strcasecmp name token \<noteq> 0 then category_scan names token (push_bit 1 rack)
      else Some rack)"

lemma strtok_r_shorter:
  assumes "strtok_r str = Some (token, rest)"
  shows "length rest < length str"
proof -
  define start where "start = dropWhile (\<lambda>c. c = CHR '','') str"
  define after where "after = dropWhile (\<lambda>c. c \<noteq> CHR '','') start"
  from assms have ne: "start \<noteq> []" and r: "rest = drop 1 after"
    by (auto simp: strtok_r_def Let_def start_def after_def split: if_splits)
  from ne obtain x xs where sx: "start = x # xs"
    by (cases start) auto
  have "x \<noteq> CHR '',''"
    using hd_dropWhile [of "\<lambda>c. c = CHR '',''" str] ne sx
    unfolding start_def by auto
  then have "after = dropWhile (\<lambda>c. c \<noteq> CHR '','') xs"
    by (simp add: after_def sx)
  then have a: "length after < length start"
    using length_dropWhile_le [of "\<lambda>c. c \<noteq> CHR '',''" xs] by (simp add: sx)
  have b: "length start \<le> length str"
    unfolding start_def by (rule length_dropWhile_le)
  from a b r show ?thesis by simp
qed

function setdebugmask_loop :: "err_h \<Rightarrow> 32 word \<Rightarrow> string \<Rightarrow> (world, int) prog" where
  "setdebugmask_loop H tid str s =
     (case strtok_r str of
        Some (token, rest) \<Rightarrow>
          (case category_scan err_categorylist token 1 of
             None \<Rightarrow>
               andthen (DPRINTF H (E_LOG H) (L_MISC H)
                          (''Unknown module: '' @ token @ ''\<newline>'') tid)
                 (\<lambda>_. ret 1) s
           | Some rack \<Rightarrow>
               setdebugmask_loop H tid rest (s\<lparr>err_debugmask := err_debugmask s OR rack\<rparr>))
      | None \<Rightarrow>
          andthen (DPRINTF H (E_INF H) (L_MISC H)
                     (''Debug mask is 0x'' @ hex8 (err_debugmask s) @ ''\<newline>'') tid)
            (\<lambda>_. ret 0) s)"
  by pat_completeness auto
termination
  by (relation "measure (\<lambda>(H, tid, str, s). length str)") (auto dest: strtok_r_shorter)

declare setdebugmask_loop.simps [simp del]

definition err_setdebugmask :: "err_h \<Rightarrow> string \<Rightarrow> 32 word \<Rightarrow> (world, int) prog" where
  "err_setdebugmask H list tid s =
     (let s1 = s\<lparr>err_debugmask := 0x80000000\<rparr>;
          (str, s2) = malloc s1
      in if \<not> str then (Returns 0, s2)
         else setdebugmask_loop H tid list s2)"

text \<open>
  The tokens the loop of \<open>err_setdebugmask\<close> meets when nothing stops it, in order:
  \<open>strtok_r\<close> called until it yields the null pointer. \<open>category_bit\<close> is the bit
  the inner loop finds for a token, \<open>None\<close> for a token that is no category name.
\<close>

function tokens :: "string \<Rightarrow> string list" where
  "tokens str =
     (case strtok_r str of
        None \<Rightarrow> []
      | Some (token, rest) \<Rightarrow> token # tokens rest)"
  by pat_completeness auto
termination
  by (relation "measure length") (auto dest: strtok_r_shorter)

declare tokens.simps [simp del]

definition category_bit :: "string \<Rightarrow> 32 word option" where
  "category_bit token = category_scan err_categorylist token 1"

definition known_bits :: "string list \<Rightarrow> 32 word \<Rightarrow> 32 word" where
  "known_bits ts m0 =
     fold (\<lambda>token m. m OR the (category_bit token))
       (takeWhile (\<lambda>token. category_bit token \<noteq> None) ts) m0"

subsection \<open>Sample values\<close>

text \<open>
  The static variables as lines 63 to 69 and 80 initialise them, in a process that has
  written nothing yet, with no file on disk, every path openable and memory for every
  allocation; and one choice of the constants of err.h, each destination flag a bit of
  its own.
\<close>

definition world_init :: world where
  "world_init =
     \<lparr>err_debuglevel = 0, err_logdest = 0, err_filename = [], err_file = None,
      err_debugmask = 0xFFFFFFFF, err_truncate = 0, err_syslog_open = 0,
      err_threadlist = [],
      streams = (\<lambda>_. None), next_stream = 0, files = (\<lambda>_. None),
      openable = (\<lambda>_. True), allocs = [],
      strerror_errno = ''Permission denied'', timebuf_now = ''2009-06-01 12:00:00'',
      events = []\<rparr>"

definition err_h_sample :: err_h where
  "err_h_sample =
     \<lparr>LOGDEST_STDERR = 1, LOGDEST_SYSLOG = 2, LOGDEST_LOGFILE = 4,
      E_LOG = 1, E_INF = 5, E_DBG = 9, L_MISC = 0x80000000\<rparr>"

text \<open>
  A process that logs to a file: the state after \<open>err_setlogfile\<close> with the path of
  a log that holds one line and \<open>err_setdest\<close> with the file destination, from
  \<open>world_init\<close> with that log on disk.
\<close>

definition sample_path :: string where
  "sample_path = ''/var/log/daapd.log''"

definition world_on_disk :: world where
  "world_on_disk = world_init\<lparr>files := (\<lambda>_. None)(sample_path := Some ''old line\<newline>'')\<rparr>"

definition world_logging :: world where
  "world_logging =
     world_on_disk
       \<lparr>err_logdest := 4, err_filename := sample_path, err_file := Some 0,
        streams := (\<lambda>_. None)(0 := Some sample_path), next_stream := 1\<rparr>"

text \<open>
  The stream behind \<open>err_file\<close> can be used: the pointer is null or the stream it
  points to is open.
\<close>

definition err_file_usable :: "world \<Rightarrow> bool" where
  "err_file_usable s = (case err_file s of None \<Rightarrow> True | Some h \<Rightarrow> streams s h \<noteq> None)"

section \<open>Properties\<close>

subsection \<open>Helper facts\<close>

lemmas prog_defs =
  andthen_def ret_def run_def when_do_def exit_with_def undefined_behaviour_def

lemma find_thread_iff: "find_thread t xs \<noteq> 0 \<longleftrightarrow> t \<in> set xs"
  by (induction xs) (auto simp: TRUE_def FALSE_def)

lemma recursive_iff:
  "(err_threadlist s \<noteq> [] \<and> err_thread_check tid s \<noteq> 0) \<longleftrightarrow> tid \<in> set (err_threadlist s)"
  by (auto simp: err_thread_check_def find_thread_iff)

lemma malloc_frame: "malloc s = (b, s1) \<Longrightarrow> s1 = s\<lparr>allocs := tl (allocs s)\<rparr>"
  by (auto simp: malloc_def split: list.splits)

lemma err_log_guard_cases:
  "err_log_guard level tid s =
     (if tid \<in> set (err_threadlist s) \<and> level \<noteq> 0 then (Returns None, s)
      else case malloc s of
             (False, s1) \<Rightarrow>
               (Exits (- 1), fprintf_stderr ''malloc error in __err_thread_add\<newline>'' s1)
           | (True, s1) \<Rightarrow>
               (Returns (Some (tid \<in> set (err_threadlist s))),
                s1\<lparr>err_threadlist := tid # err_threadlist s1\<rparr>))"
  unfolding err_log_guard_def recursive_iff
  by (auto simp: prog_defs err_thread_add_def split: prod.splits bool.splits)



lemma err_file_usable_same:
  "err_file s' = err_file s \<Longrightarrow> streams s' = streams s \<Longrightarrow> err_file_usable s' = err_file_usable s"
  by (simp add: err_file_usable_def split: option.splits)

text \<open>What each stage of the fan-out does to the thread list, and how it can end.\<close>

lemma err_log_syslog_registry:
  "err_threadlist (snd (err_log_syslog H level errbuf so s)) = err_threadlist s"
  by (simp add: err_log_syslog_def prog_defs openlog_def syslog_def fprintf_stderr_def)

lemma err_log_syslog_exits:
  "fst (err_log_syslog H level errbuf so s) = Exits c \<longleftrightarrow> so \<and> level = 0 \<and> c = - 1"
  by (auto simp add: err_log_syslog_def prog_defs openlog_def syslog_def fprintf_stderr_def
      lvl2syslog_def)

lemma err_log_sinks_registry:
  "err_threadlist (snd (err_log_sinks H level errbuf so tid s)) = err_threadlist s"
  by (simp add: err_log_sinks_def prog_defs fprintf_stderr_def fprintf_file_def
      split: option.splits)

lemma err_log_sinks_no_exit:
  "fst (err_log_sinks H level errbuf so tid s) \<noteq> Exits c"
  by (simp add: err_log_sinks_def prog_defs fprintf_stderr_def fprintf_file_def
      split: option.splits)

lemma err_log_leave_eq:
  "err_log_leave level tid s =
     (if level = 0 then Exits EXIT_FAILURE else Returns (), err_thread_del tid s)"
  by (simp add: err_log_leave_def prog_defs)

lemma err_log_syslog_fatal:
  "err_log_syslog H 0 errbuf so s =
     (if so then Exits (- 1) else Returns (),
      s\<lparr>err_syslog_open := 1,
        events := events s @ (if err_syslog_open s = 0 then [Openlog] else [])
                  @ [Syslog (if 0 > E_DBG H then LOG_DEBUG else LOG_ALERT) errbuf]
                  @ (if so then [Stderr ''Aborting\<newline>''] else [])\<rparr>)"
  by (simp add: err_log_syslog_def prog_defs openlog_def syslog_def fprintf_stderr_def
      lvl2syslog_def)

lemma err_log_sinks_fatal:
  assumes "err_logdest s AND LOGDEST_LOGFILE H \<noteq> 0 \<longrightarrow> err_file_usable s"
  shows "fst (err_log_sinks H 0 errbuf False tid s) = Returns ()
       \<and> events (snd (err_log_sinks H 0 errbuf False tid s))
           = events s @ [Stderr errbuf, Stderr ''Aborting\<newline>'']"
  using assms
  by (auto simp add: err_log_sinks_def prog_defs fprintf_stderr_def fprintf_file_def
      err_file_usable_def split: option.splits)

lemma err_log_fanout_registry:
  assumes "err_log_fanout H level e so tid s2 = (r, s')"
  shows "(r = Returns () \<longrightarrow> err_threadlist s' = unlink_first tid (err_threadlist s2))
       \<and> (\<forall>c. r = Exits c \<and> \<not> so \<longrightarrow> err_threadlist s' = unlink_first tid (err_threadlist s2))
       \<and> (r = Undefined \<or> (\<exists>c. r = Exits c \<and> so) \<longrightarrow> err_threadlist s' = err_threadlist s2)"
proof -
  obtain r1 s3 where 1: "err_log_syslog H level e so s2 = (r1, s3)"
    by (cases "err_log_syslog H level e so s2")
  obtain r2 s4 where 2: "err_log_sinks H level e so tid s3 = (r2, s4)"
    by (cases "err_log_sinks H level e so tid s3")
  have reg3: "err_threadlist s3 = err_threadlist s2"
    using err_log_syslog_registry [of H level e so s2] 1 by simp
  have reg4: "err_threadlist s4 = err_threadlist s3"
    using err_log_sinks_registry [of H level e so tid s3] 2 by simp
  have ex1: "\<And>c. r1 = Exits c \<longleftrightarrow> so \<and> level = 0 \<and> c = - 1"
    using err_log_syslog_exits [of H level e so s2] 1 by simp
  have ex2: "\<And>c. r2 \<noteq> Exits c"
    using err_log_sinks_no_exit [of H level e so tid s3] 2 by simp
  note run = assms [unfolded err_log_fanout_def]
  show ?thesis
  proof (cases r1)
    case (Returns u)
    show ?thesis
    proof (cases r2)
      case (Returns u')
      with \<open>r1 = Returns u\<close> run 1 2 reg3 reg4 ex1 show ?thesis
        by (auto simp: andthen_def err_log_leave_eq err_thread_del_def split: if_splits)
    next
      case (Exits c)
      with ex2 [of c] show ?thesis by simp
    next
      case Undefined
      with \<open>r1 = Returns u\<close> run 1 2 reg3 reg4 show ?thesis
        by (auto simp: andthen_def)
    qed
  next
    case (Exits c)
    with run 1 reg3 ex1 show ?thesis
      by (auto simp: andthen_def)
  next
    case Undefined
    with run 1 reg3 show ?thesis
      by (auto simp: andthen_def)
  qed
qed

text \<open>The three ways through the filter and the guard.\<close>

lemma err_log_dropped:
  assumes "filter_rejects level cat s \<or> (tid \<in> set (err_threadlist s) \<and> level \<noteq> 0)"
  shows "err_log H level cat msg tid s = (Returns (), s)"
  using assms
  by (auto simp: err_log_def err_log_dispatch_def err_log_guard_cases prog_defs)

lemma err_log_no_memory:
  assumes "\<not> filter_rejects level cat s" and "tid \<notin> set (err_threadlist s) \<or> level = 0"
    and "malloc s = (False, s1)"
  shows "err_log H level cat msg tid s
           = (Exits (- 1), fprintf_stderr ''malloc error in __err_thread_add\<newline>'' s1)"
  using assms
  by (auto simp: err_log_def err_log_dispatch_def err_log_guard_cases andthen_def)

lemma err_log_entered:
  assumes "\<not> filter_rejects level cat s" and "tid \<notin> set (err_threadlist s) \<or> level = 0"
    and "malloc s = (True, s1)"
  shows "err_log H level cat msg tid s
           = err_log_fanout H level (take 4095 msg) (tid \<in> set (err_threadlist s)) tid
               (s1\<lparr>err_threadlist := tid # err_threadlist s1\<rparr>)"
  using assms
  by (auto simp: err_log_def err_log_dispatch_def err_log_guard_cases andthen_def)

lemmas world_samples =
  world_init_def err_h_sample_def sample_path_def world_on_disk_def world_logging_def

lemmas libc_defs =
  malloc_def fprintf_stderr_def openlog_def syslog_def fopen_def fclose_def fprintf_file_def
  lvl2syslog_def LOG_ALERT_def LOG_NOTICE_def LOG_INFO_def LOG_DEBUG_def EXIT_FAILURE_def
  TRUE_def FALSE_def PATH_MAX_def

lemmas err_log_defs =
  err_log_def filter_rejects_def err_log_dispatch_def err_log_guard_def err_log_fanout_def
  err_thread_check_def err_thread_add_def err_thread_del_def err_log_syslog_def
  err_log_sinks_def err_log_leave_def DPRINTF_def Let_def

lemma world_logging_reached:
  "andthen (err_setlogfile err_h_sample sample_path) (\<lambda>_. err_setdest err_h_sample 4)
     world_on_disk = (Returns (), world_logging)"
  by (simp add: world_samples err_setlogfile_def err_setdest_def libc_defs prog_defs Let_def)

subsection \<open>The filter\<close>

text \<open>
  Claim C4. The filter of \<open>err_log\<close> lets every message of level 0 or 1 pass, whatever
  the debug level and the category mask are; a message of level 2 or more passes exactly
  when its level is at most the debug level and its category has a bit in common with
  the category mask. A message that passes goes on to the dispatch; one that does not
  is dropped and \<open>err_log\<close> returns with the state as it was.
\<close>

theorem err_log_filter:
  "(level \<le> 1 \<longrightarrow> \<not> filter_rejects level cat s)
   \<and> (2 \<le> level \<longrightarrow>
        (\<not> filter_rejects level cat s
           \<longleftrightarrow> level \<le> err_debuglevel s \<and> cat AND err_debugmask s \<noteq> 0))
   \<and> err_log H level cat msg tid s =
       (if level \<le> 1 \<or> (level \<le> err_debuglevel s \<and> cat AND err_debugmask s \<noteq> 0)
        then err_log_dispatch H level msg tid s
        else (Returns (), s))"
  by (auto simp: err_log_def filter_rejects_def ret_def)

theorem err_log_filter_witness:
  "\<not> filter_rejects 1 0 (world_init\<lparr>err_debugmask := 0\<rparr>)
   \<and> filter_rejects 2 1 world_init
   \<and> \<not> filter_rejects 2 1 (world_init\<lparr>err_debuglevel := 5\<rparr>)
   \<and> filter_rejects 2 2 (world_init\<lparr>err_debuglevel := 5, err_debugmask := 1\<rparr>)"
  using err_log_filter [of 1 0 "world_init\<lparr>err_debugmask := 0\<rparr>"]
    err_log_filter [of 2 1 world_init]
    err_log_filter [of 2 1 "world_init\<lparr>err_debuglevel := 5\<rparr>"]
    err_log_filter [of 2 2 "world_init\<lparr>err_debuglevel := 5, err_debugmask := 1\<rparr>"]
  by (simp add: world_init_def)

subsection \<open>The guard of recursive calls\<close>

text \<open>
  Claim C2. A call of \<open>err_log\<close> at a level other than 0 by a thread whose id is in
  the thread list returns and leaves the whole state as it was: nothing is written to
  any sink, and no variable of the configuration or of the thread list changes.
\<close>

theorem err_log_recursive_drops:
  assumes "tid \<in> set (err_threadlist s)" and "level \<noteq> 0"
  shows "err_log H level cat msg tid s = (Returns (), s)"
  using assms
  by (simp add: err_log_def err_log_dispatch_def err_log_guard_cases prog_defs)

theorem err_log_recursive_drops_witness:
  "(7 :: 32 word) \<in> set (err_threadlist (world_init\<lparr>err_threadlist := [7]\<rparr>))
   \<and> (1 :: int) \<noteq> 0
   \<and> err_log err_h_sample 1 1 ''disk full'' 7 (world_init\<lparr>err_threadlist := [7]\<rparr>)
       = (Returns (), world_init\<lparr>err_threadlist := [7]\<rparr>)"
  using err_log_recursive_drops
    [of 7 "world_init\<lparr>err_threadlist := [7]\<rparr>" 1 err_h_sample 1 "''disk full''"]
  by simp

text \<open>
  Claim C1, as the code has it. A call of \<open>err_log\<close> at level 0 by a thread whose id
  is in the thread list, with memory for the new node of the list, hands the message to
  syslog once (opening syslog first when it is not open yet), writes the line
  \<open>Aborting\<close> to the standard error stream and ends the process with \<open>exit(-1)\<close>.
  The message itself reaches neither the standard error stream nor the log file: the
  files and the streams are as they were.
\<close>

theorem err_log_recursive_fatal:
  assumes "tid \<in> set (err_threadlist s)" and "malloc s = (True, s1)"
  shows "err_log H 0 cat msg tid s =
           (Exits (- 1),
            s1\<lparr>err_threadlist := tid # err_threadlist s,
               err_syslog_open := 1,
               events := events s @ (if err_syslog_open s = 0 then [Openlog] else [])
                         @ [Syslog (if 0 > E_DBG H then LOG_DEBUG else LOG_ALERT) (take 4095 msg),
                            Stderr ''Aborting\<newline>'']\<rparr>)"
proof -
  from assms(2) have s1: "s1 = s\<lparr>allocs := tl (allocs s)\<rparr>"
    by (rule malloc_frame)
  have "\<not> filter_rejects 0 cat s"
    by (simp add: filter_rejects_def)
  from err_log_entered [OF this _ assms(2), of tid H msg] assms(1) show ?thesis
    by (simp add: err_log_fanout_def andthen_def err_log_syslog_fatal s1)
qed

theorem err_log_recursive_fatal_witness:
  "(7 :: 32 word) \<in> set (err_threadlist (world_init\<lparr>err_threadlist := [7]\<rparr>))
   \<and> malloc (world_init\<lparr>err_threadlist := [7]\<rparr>) = (True, world_init\<lparr>err_threadlist := [7]\<rparr>)
   \<and> err_log err_h_sample 0 1 ''boom'' 7 (world_init\<lparr>err_threadlist := [7]\<rparr>)
       = (Exits (- 1),
          world_init\<lparr>err_threadlist := [7, 7], err_syslog_open := 1,
            events := [Openlog, Syslog 1 ''boom'', Stderr ''Aborting\<newline>'']\<rparr>)"
proof -
  have m: "malloc (world_init\<lparr>err_threadlist := [7]\<rparr>) = (True, world_init\<lparr>err_threadlist := [7]\<rparr>)"
    by (simp add: malloc_def world_init_def)
  have r: "(7 :: 32 word) \<in> set (err_threadlist (world_init\<lparr>err_threadlist := [7]\<rparr>))"
    by simp
  from err_log_recursive_fatal [OF r m, of err_h_sample 1 "''boom''"] m r show ?thesis
    by (simp add: world_samples LOG_ALERT_def)
qed

text \<open>
  Against claim C1 as stated: on that path a write to the standard error stream is
  attempted, the line \<open>Aborting\<close> of line 250.
\<close>

theorem err_log_recursive_fatal_console_write:
  "events (snd (err_log err_h_sample 0 1 ''boom'' 7 (world_init\<lparr>err_threadlist := [7]\<rparr>)))
     = [Openlog, Syslog 1 ''boom'', Stderr ''Aborting\<newline>'']"
  by (simp add: world_samples libc_defs err_log_defs prog_defs)

text \<open>
  Without memory for the node, lines 107 to 110 end the process before syslog is
  reached: the message of \<open>__err_thread_add\<close> on the standard error stream is all that
  is written.
\<close>

lemma out_of_memory_exit:
  "err_log err_h_sample 0 1 ''boom'' 7 (world_init\<lparr>allocs := [False]\<rparr>)
     = (Exits (- 1),
        world_init\<lparr>events := [Stderr ''malloc error in __err_thread_add\<newline>'']\<rparr>)"
  by (simp add: world_samples libc_defs err_log_defs prog_defs)

subsection \<open>The thread list across a call\<close>

text \<open>
  Claim C3, as the code has it. Whenever \<open>err_log\<close> returns, the thread list is what
  it was before the call, so an addition has been undone by one removal; the same holds
  when a call by a thread that was not in the list ends the process. A message the
  filter rejects is dropped before anything is added, so a thread list that was empty
  is empty afterwards. A call at level 0 by a thread that is in the list already ends
  the process with the entry it added still in the list.
\<close>

theorem err_log_thread_list_restored:
  "(\<forall>v. fst (err_log H level cat msg tid s) = Returns v
        \<longrightarrow> err_threadlist (snd (err_log H level cat msg tid s)) = err_threadlist s)
   \<and> (\<forall>c. tid \<notin> set (err_threadlist s) \<and> fst (err_log H level cat msg tid s) = Exits c
        \<longrightarrow> err_threadlist (snd (err_log H level cat msg tid s)) = err_threadlist s)
   \<and> (filter_rejects level cat s \<longrightarrow> err_log H level cat msg tid s = (Returns (), s))
   \<and> (tid \<in> set (err_threadlist s) \<and> level = 0 \<and> fst (malloc s)
        \<longrightarrow> fst (err_log H level cat msg tid s) = Exits (- 1)
          \<and> err_threadlist (snd (err_log H level cat msg tid s)) = tid # err_threadlist s)"
proof -
  obtain b s1 where m: "malloc s = (b, s1)"
    by (cases "malloc s")
  then have s1: "s1 = s\<lparr>allocs := tl (allocs s)\<rparr>"
    by (rule malloc_frame)
  define s2 where "s2 = s1\<lparr>err_threadlist := tid # err_threadlist s1\<rparr>"
  define so where "so = (tid \<in> set (err_threadlist s))"
  obtain r s' where rest: "err_log_fanout H level (take 4095 msg) so tid s2 = (r, s')"
    by (cases "err_log_fanout H level (take 4095 msg) so tid s2")
  note after = err_log_fanout_registry [OF rest]
  have reg2: "unlink_first tid (err_threadlist s2) = err_threadlist s"
    and reg2': "err_threadlist s2 = tid # err_threadlist s"
    by (simp_all add: s2_def s1)
  have entered: "err_log H level cat msg tid s = (r, s')"
    if "\<not> filter_rejects level cat s" and "tid \<notin> set (err_threadlist s) \<or> level = 0" and b
    using err_log_entered [OF that(1,2), of s1 H msg] that(3) m rest
    by (simp add: s2_def so_def)
  have nomem: "fst (err_log H level cat msg tid s) = Exits (- 1)
       \<and> err_threadlist (snd (err_log H level cat msg tid s)) = err_threadlist s"
    if "\<not> filter_rejects level cat s" and "tid \<notin> set (err_threadlist s) \<or> level = 0" and "\<not> b"
    using err_log_no_memory [OF that(1,2), of s1 H msg] that(3) m
    by (simp add: fprintf_stderr_def s1)
  have c1: "err_threadlist (snd (err_log H level cat msg tid s)) = err_threadlist s"
    if ret: "fst (err_log H level cat msg tid s) = Returns v" for v
  proof (cases "filter_rejects level cat s \<or> (tid \<in> set (err_threadlist s) \<and> level \<noteq> 0)")
    case True
    then show ?thesis by (simp add: err_log_dropped)
  next
    case False
    then show ?thesis
      using ret after reg2 entered nomem by (cases b) auto
  qed
  have c2: "err_threadlist (snd (err_log H level cat msg tid s)) = err_threadlist s"
    if nr: "tid \<notin> set (err_threadlist s)" and ex: "fst (err_log H level cat msg tid s) = Exits c"
    for c
  proof (cases "filter_rejects level cat s")
    case True
    then show ?thesis by (simp add: err_log_dropped)
  next
    case False
    then show ?thesis
      using nr ex after reg2 entered nomem by (cases b) (auto simp: so_def)
  qed
  have c4: "fst (err_log H level cat msg tid s) = Exits (- 1)
          \<and> err_threadlist (snd (err_log H level cat msg tid s)) = tid # err_threadlist s"
    if "tid \<in> set (err_threadlist s)" and "level = 0" and "fst (malloc s)"
  proof -
    have nf: "\<not> filter_rejects level cat s"
      using that by (simp add: filter_rejects_def)
    with that m have e: "err_log H level cat msg tid s = (r, s')"
      using entered by simp
    have "fst (err_log_syslog H level (take 4095 msg) so s2) = Exits (- 1)"
      using that by (simp add: err_log_syslog_exits so_def)
    then have "r = Exits (- 1)"
      using rest by (auto simp: err_log_fanout_def andthen_def split: prod.splits outcome.splits)
    with after that e reg2' show ?thesis by (simp add: so_def)
  qed
  from c1 c2 c4 show ?thesis by (simp add: err_log_dropped)
qed

theorem err_log_thread_list_restored_witness:
  "err_threadlist (snd (err_log err_h_sample 1 1 ''disk full'' 7 world_init)) = []
   \<and> err_threadlist (snd (err_log err_h_sample 0 1 ''boom'' 7 world_init)) = []
   \<and> err_log err_h_sample 2 1 ''low disk'' 7 world_init = (Returns (), world_init)
   \<and> err_threadlist
        (snd (err_log err_h_sample 0 1 ''boom'' 7 (world_init\<lparr>err_threadlist := [7]\<rparr>))) = [7, 7]"
proof -
  have "fst (err_log err_h_sample 1 1 ''disk full'' 7 world_init) = Returns ()"
    and "(7 :: 32 word) \<notin> set (err_threadlist world_init)"
    and "fst (err_log err_h_sample 0 1 ''boom'' 7 world_init) = Exits 1"
    and "filter_rejects 2 1 world_init"
    and "fst (malloc (world_init\<lparr>err_threadlist := [7]\<rparr>))"
    by (simp_all add: world_samples libc_defs err_log_defs prog_defs)
  with err_log_thread_list_restored [of err_h_sample 1 1 "''disk full''" 7 world_init]
    err_log_thread_list_restored [of err_h_sample 0 1 "''boom''" 7 world_init]
    err_log_thread_list_restored [of err_h_sample 2 1 "''low disk''" 7 world_init]
    err_log_thread_list_restored
      [of err_h_sample 0 1 "''boom''" 7 "world_init\<lparr>err_threadlist := [7]\<rparr>"]
  show ?thesis
    by (simp add: world_init_def)
qed

text \<open>
  Against claim C3 as stated: the process ends at line 251 with the entry that line 234
  added still in the list, beside the one the thread had before.
\<close>

theorem recursive_fatal_exit_keeps_entry:
  "fst (err_log err_h_sample 0 1 ''boom'' 7 (world_init\<lparr>err_threadlist := [7]\<rparr>)) = Exits (- 1)
   \<and> err_threadlist
        (snd (err_log err_h_sample 0 1 ''boom'' 7 (world_init\<lparr>err_threadlist := [7]\<rparr>)))
       = [7, 7]"
  by (simp add: world_samples libc_defs err_log_defs prog_defs)

subsection \<open>A fatal message of a thread that is not logging already\<close>

lemma err_log_sinks_exit_False:
  "err_log_sinks H level e so tid s = (Exits c, s') \<Longrightarrow> False"
  using err_log_sinks_no_exit [of H level e so tid s c] by simp

lemma fatal_exit_status:
  assumes "fst (err_log H 0 cat msg tid s) = Exits c"
  shows "c = - 1 \<or> c = EXIT_FAILURE"
proof -
  obtain b s1 where m: "malloc s = (b, s1)"
    by (cases "malloc s")
  have nf: "\<not> filter_rejects 0 cat s"
    by (simp add: filter_rejects_def)
  show ?thesis
  proof (cases b)
    case False
    with err_log_no_memory [OF nf, of tid s1 H msg] m assms show ?thesis by simp
  next
    case True
    with err_log_entered [OF nf, of tid s1 H msg] m assms show ?thesis
      by (auto simp: err_log_fanout_def andthen_def err_log_syslog_fatal err_log_leave_eq
          split: prod.splits outcome.splits if_splits dest: err_log_sinks_exit_False)
  qed
qed

lemma fatal_no_memory:
  assumes "\<not> fst (malloc s)"
  shows "fst (err_log H 0 cat msg tid s) = Exits (- 1)
       \<and> events (snd (err_log H 0 cat msg tid s))
           = events s @ [Stderr ''malloc error in __err_thread_add\<newline>'']"
proof -
  obtain b s1 where m: "malloc s = (b, s1)"
    by (cases "malloc s")
  with assms have m': "malloc s = (False, s1)" by simp
  then have s1: "s1 = s\<lparr>allocs := tl (allocs s)\<rparr>"
    by (rule malloc_frame)
  have nf: "\<not> filter_rejects 0 cat s"
    by (simp add: filter_rejects_def)
  from err_log_no_memory [OF nf _ m', of tid H msg] show ?thesis
    by (simp add: fprintf_stderr_def s1)
qed

text \<open>
  Claim C8, as the code has it. A call of \<open>err_log\<close> at level 0 never returns to its
  caller, and whenever it ends the process the status is other than 0. When the
  calling thread is not in the thread list, there is memory for its node and the log
  file, if the file destination is on, is behind a usable stream, the call hands the
  message to syslog, writes the message and then the line \<open>Aborting\<close> to the standard
  error stream, whether the flag of that destination is set or not, and ends the
  process with \<open>exit(EXIT_FAILURE)\<close>. Without memory for the node the call ends the
  process with \<open>exit(-1)\<close>, and the message of \<open>__err_thread_add\<close> is all that the
  standard error stream gets.
\<close>

theorem err_log_fatal:
  "(\<forall>v. fst (err_log H 0 cat msg tid s) \<noteq> Returns v)
   \<and> (\<forall>c. fst (err_log H 0 cat msg tid s) = Exits c \<longrightarrow> c \<noteq> 0)
   \<and> (tid \<notin> set (err_threadlist s) \<and> fst (malloc s)
        \<and> (err_logdest s AND LOGDEST_LOGFILE H \<noteq> 0 \<longrightarrow> err_file_usable s)
      \<longrightarrow> fst (err_log H 0 cat msg tid s) = Exits EXIT_FAILURE
          \<and> EXIT_FAILURE \<noteq> 0
          \<and> events (snd (err_log H 0 cat msg tid s))
              = events s @ (if err_syslog_open s = 0 then [Openlog] else [])
                @ [Syslog (if 0 > E_DBG H then LOG_DEBUG else LOG_ALERT) (take 4095 msg),
                   Stderr (take 4095 msg), Stderr ''Aborting\<newline>''])
   \<and> (\<not> fst (malloc s)
      \<longrightarrow> fst (err_log H 0 cat msg tid s) = Exits (- 1)
          \<and> events (snd (err_log H 0 cat msg tid s))
              = events s @ [Stderr ''malloc error in __err_thread_add\<newline>''])"
proof -
  have never: "\<forall>v. fst (err_log H 0 cat msg tid s) \<noteq> Returns v"
  proof -
  obtain b s1 where m: "malloc s = (b, s1)"
    by (cases "malloc s")
  have nf: "\<not> filter_rejects 0 cat s"
    by (simp add: filter_rejects_def)
  show ?thesis
  proof (cases b)
    case False
    with err_log_no_memory [OF nf, of tid s1 H msg] m show ?thesis by simp
  next
    case True
    with err_log_entered [OF nf, of tid s1 H msg] m show ?thesis
      by (auto simp: err_log_fanout_def andthen_def err_log_syslog_fatal err_log_leave_eq
          split: prod.splits outcome.splits)
  qed
  qed
  have status: "\<forall>c. fst (err_log H 0 cat msg tid s) = Exits c \<longrightarrow> c \<noteq> 0"
    using fatal_exit_status [of H cat msg tid s] by (auto simp: EXIT_FAILURE_def)
  let ?goal = "fst (err_log H 0 cat msg tid s) = Exits EXIT_FAILURE
          \<and> EXIT_FAILURE \<noteq> 0
          \<and> events (snd (err_log H 0 cat msg tid s))
              = events s @ (if err_syslog_open s = 0 then [Openlog] else [])
                @ [Syslog (if 0 > E_DBG H then LOG_DEBUG else LOG_ALERT) (take 4095 msg),
                   Stderr (take 4095 msg), Stderr ''Aborting\<newline>'']"
  have top: "tid \<notin> set (err_threadlist s) \<and> fst (malloc s)
        \<and> (err_logdest s AND LOGDEST_LOGFILE H \<noteq> 0 \<longrightarrow> err_file_usable s) \<longrightarrow> ?goal"
  proof (rule impI)
    assume a: "tid \<notin> set (err_threadlist s) \<and> fst (malloc s)
        \<and> (err_logdest s AND LOGDEST_LOGFILE H \<noteq> 0 \<longrightarrow> err_file_usable s)"
    define s1 where "s1 = snd (malloc s)"
    define s2 where "s2 = s1\<lparr>err_threadlist := tid # err_threadlist s1\<rparr>"
    define s3 where "s3 = snd (err_log_syslog H 0 (take 4095 msg) False s2)"
    from a have m: "malloc s = (True, s1)"
      by (simp add: s1_def prod_eq_iff)
    then have s1: "s1 = s\<lparr>allocs := tl (allocs s)\<rparr>"
      by (rule malloc_frame)
    have nf: "\<not> filter_rejects 0 cat s"
      by (simp add: filter_rejects_def)
    from err_log_entered [OF nf _ m, of tid H msg] a
    have e: "err_log H 0 cat msg tid s = err_log_fanout H 0 (take 4095 msg) False tid s2"
      by (simp add: s2_def)
    have sy: "err_log_syslog H 0 (take 4095 msg) False s2 = (Returns (), s3)"
      by (simp add: s3_def err_log_syslog_fatal)
    have "err_logdest s3 = err_logdest s" and "err_file s3 = err_file s"
      and "streams s3 = streams s"
      by (simp_all add: s3_def err_log_syslog_fatal s2_def s1)
    moreover from this have "err_file_usable s3 = err_file_usable s"
      by (intro err_file_usable_same)
    ultimately have "err_logdest s3 AND LOGDEST_LOGFILE H \<noteq> 0 \<longrightarrow> err_file_usable s3"
      using a by simp
    note sinks = err_log_sinks_fatal [OF this, of "take 4095 msg" tid]
    define s4 where "s4 = snd (err_log_sinks H 0 (take 4095 msg) False tid s3)"
    from sinks have sk: "err_log_sinks H 0 (take 4095 msg) False tid s3 = (Returns (), s4)"
      and s4: "events s4 = events s3 @ [Stderr (take 4095 msg), Stderr ''Aborting\<newline>'']"
      by (simp_all add: s4_def prod_eq_iff)
    have "err_log H 0 cat msg tid s = (Exits EXIT_FAILURE, err_thread_del tid s4)"
      by (simp add: e err_log_fanout_def andthen_def sy sk err_log_leave_eq)
    moreover have "events s3 = events s @ (if err_syslog_open s = 0 then [Openlog] else [])
                @ [Syslog (if 0 > E_DBG H then LOG_DEBUG else LOG_ALERT) (take 4095 msg)]"
      by (simp add: s3_def err_log_syslog_fatal s2_def s1)
    ultimately show ?goal
      by (simp add: s4 err_thread_del_def EXIT_FAILURE_def)
  qed
  from never status top fatal_no_memory [of s H cat msg tid] show ?thesis
    by blast
qed

theorem err_log_fatal_witness:
  "(7 :: 32 word) \<notin> set (err_threadlist world_init)
   \<and> fst (malloc world_init)
   \<and> err_logdest world_init AND LOGDEST_STDERR err_h_sample = 0
   \<and> err_logdest world_init AND LOGDEST_LOGFILE err_h_sample = 0
   \<and> fst (err_log err_h_sample 0 1 ''boom'' 7 world_init) = Exits 1
   \<and> events (snd (err_log err_h_sample 0 1 ''boom'' 7 world_init))
       = [Openlog, Syslog 1 ''boom'', Stderr ''boom'', Stderr ''Aborting\<newline>'']
   \<and> \<not> fst (malloc (world_init\<lparr>allocs := [False]\<rparr>))
   \<and> fst (err_log err_h_sample 0 1 ''boom'' 7 (world_init\<lparr>allocs := [False]\<rparr>)) = Exits (- 1)"
proof -
  have "(7 :: 32 word) \<notin> set (err_threadlist world_init)"
    and "fst (malloc world_init)"
    and "err_logdest world_init AND LOGDEST_STDERR err_h_sample = 0"
    and "err_logdest world_init AND LOGDEST_LOGFILE err_h_sample = 0"
    and "\<not> fst (malloc (world_init\<lparr>allocs := [False]\<rparr>))"
    by (simp_all add: world_samples malloc_def)
  with err_log_fatal [of err_h_sample 1 "''boom''" 7 world_init]
    err_log_fatal [of err_h_sample 1 "''boom''" 7 "world_init\<lparr>allocs := [False]\<rparr>"]
  show ?thesis
    by (simp add: world_samples EXIT_FAILURE_def LOG_ALERT_def)
qed

text \<open>
  Against claim C8 as stated: a thread that is not in the thread list logs at level 0
  while there is no memory for its node. Lines 106 to 110 end the process with
  \<open>exit(-1)\<close>; neither the message nor the line \<open>Aborting\<close> reaches the standard error
  stream.
\<close>

theorem fatal_call_without_memory:
  "err_threadlist (world_init\<lparr>allocs := [False]\<rparr>) = []
   \<and> fst (err_log err_h_sample 0 1 ''boom'' 7 (world_init\<lparr>allocs := [False]\<rparr>)) = Exits (- 1)
   \<and> events (snd (err_log err_h_sample 0 1 ''boom'' 7 (world_init\<lparr>allocs := [False]\<rparr>)))
       = [Stderr ''malloc error in __err_thread_add\<newline>'']"
  by (simp add: world_samples libc_defs err_log_defs prog_defs)

text \<open>
  The file destination taken away and given back leaves the closed stream of line 385
  behind \<open>err_file\<close>; the write of line 263 to it is undefined.
\<close>

lemma fatal_call_on_closed_stream:
  "fst (err_setdest err_h_sample 0 world_logging) = Returns ()
   \<and> fst (err_setdest err_h_sample 4 (snd (err_setdest err_h_sample 0 world_logging)))
       = Returns ()
   \<and> fst (err_log err_h_sample 0 1 ''boom'' 7
        (snd (err_setdest err_h_sample 4 (snd (err_setdest err_h_sample 0 world_logging)))))
      = Undefined"
  by (simp add: world_samples err_setdest_def libc_defs err_log_defs prog_defs)

subsection \<open>No thread twice in the thread list\<close>




subsection \<open>The log file and its handle\<close>

text \<open>
  \<open>err_setlogfile\<close> on a state whose \<open>err_file\<close> is null or open: it returns, and
  \<open>err_file\<close> is the new stream when the path can be opened and null when it cannot.
\<close>

lemma err_setlogfile_opened:
  assumes "err_file_usable s" and "openable s (take PATH_MAX file)"
  shows "fst (err_setlogfile H file s) = Returns TRUE
       \<and> err_file (snd (err_setlogfile H file s)) = Some (next_stream s)
       \<and> streams (snd (err_setlogfile H file s)) (next_stream s) = Some (take PATH_MAX file)
       \<and> err_logdest (snd (err_setlogfile H file s)) = err_logdest s
       \<and> events (snd (err_setlogfile H file s)) = events s"
  using assms
  by (auto simp: err_setlogfile_def err_file_usable_def prog_defs fclose_def fopen_def Let_def
      split: option.splits)

lemma err_setlogfile_failed:
  assumes "err_file_usable s" and "\<not> openable s (take PATH_MAX file)"
  shows "fst (err_setlogfile H file s) = Returns FALSE
       \<and> err_file (snd (err_setlogfile H file s)) = None
       \<and> err_logdest (snd (err_setlogfile H file s)) = err_logdest s AND NOT (LOGDEST_LOGFILE H)"
  using assms
  by (auto simp: err_setlogfile_def err_file_usable_def prog_defs fclose_def fopen_def Let_def
      fprintf_stderr_def openlog_def syslog_def split: option.splits)

text \<open>
  Claim C7, as the code has it. After \<open>err_setlogfile\<close>, called while \<open>err_file\<close> is
  null or an open stream, \<open>err_file\<close> is other than null exactly when the file could be
  opened, and then it is an open stream on the path, whether the file destination flag
  is set or not; after an open that failed the flag is clear. \<open>err_setdest\<close>, asked to
  take the file destination away while it is on and \<open>err_file\<close> is an open stream,
  closes that stream and stores the new destination.
\<close>

theorem err_file_after_configuration:
  "(err_file_usable s \<longrightarrow>
      (err_file (snd (err_setlogfile H file s)) \<noteq> None \<longleftrightarrow> openable s (take PATH_MAX file))
      \<and> (fst (err_setlogfile H file s)
            = Returns (if openable s (take PATH_MAX file) then TRUE else FALSE))
      \<and> (openable s (take PATH_MAX file) \<longrightarrow>
            err_file (snd (err_setlogfile H file s)) = Some (next_stream s)
            \<and> streams (snd (err_setlogfile H file s)) (next_stream s)
                = Some (take PATH_MAX file)
            \<and> err_logdest (snd (err_setlogfile H file s)) = err_logdest s)
      \<and> (\<not> openable s (take PATH_MAX file) \<longrightarrow>
            err_logdest (snd (err_setlogfile H file s)) AND LOGDEST_LOGFILE H = 0))
   \<and> (err_logdest s AND LOGDEST_LOGFILE H \<noteq> 0 \<and> destination AND LOGDEST_LOGFILE H = 0
        \<and> err_file s = Some h \<and> streams s h \<noteq> None \<longrightarrow>
      fst (err_setdest H destination s) = Returns ()
      \<and> streams (snd (err_setdest H destination s)) h = None
      \<and> err_logdest (snd (err_setdest H destination s)) = destination)"
proof (intro conjI impI)
  assume u: "err_file_usable s"
  show "err_file (snd (err_setlogfile H file s)) \<noteq> None \<longleftrightarrow> openable s (take PATH_MAX file)"
    using err_setlogfile_opened [OF u, of "file" H] err_setlogfile_failed [OF u, of "file" H]
    by (cases "openable s (take PATH_MAX file)") simp_all
  show "fst (err_setlogfile H file s)
            = Returns (if openable s (take PATH_MAX file) then TRUE else FALSE)"
    using err_setlogfile_opened [OF u, of "file" H] err_setlogfile_failed [OF u, of "file" H]
    by (cases "openable s (take PATH_MAX file)") simp_all
  {
    assume o: "openable s (take PATH_MAX file)"
    from err_setlogfile_opened [OF u o, of H]
    show "err_file (snd (err_setlogfile H file s)) = Some (next_stream s)"
      and "streams (snd (err_setlogfile H file s)) (next_stream s) = Some (take PATH_MAX file)"
      and "err_logdest (snd (err_setlogfile H file s)) = err_logdest s"
      by simp_all
  }
  {
    assume o: "\<not> openable s (take PATH_MAX file)"
    from err_setlogfile_failed [OF u o, of H]
    show "err_logdest (snd (err_setlogfile H file s)) AND LOGDEST_LOGFILE H = 0"
      by (simp add: bit_eq_iff bit_simps)
  }
next
  assume a: "err_logdest s AND LOGDEST_LOGFILE H \<noteq> 0 \<and> destination AND LOGDEST_LOGFILE H = 0
        \<and> err_file s = Some h \<and> streams s h \<noteq> None"
  then obtain path where p: "streams s h = Some path"
    by auto
  from a have ne: "err_logdest s \<noteq> destination"
    by auto
  from a p ne
  have "err_setdest H destination s
          = (Returns (), s\<lparr>streams := (streams s)(h := None), err_logdest := destination\<rparr>)"
    by (simp add: err_setdest_def prog_defs fclose_def)
  then show "fst (err_setdest H destination s) = Returns ()"
    and "streams (snd (err_setdest H destination s)) h = None"
    and "err_logdest (snd (err_setdest H destination s)) = destination"
    by simp_all
qed

theorem err_file_after_configuration_witness:
  "err_file_usable world_on_disk
   \<and> openable world_on_disk (take PATH_MAX sample_path)
   \<and> err_setlogfile err_h_sample sample_path world_on_disk
       = (Returns TRUE, world_logging\<lparr>err_logdest := 0\<rparr>)
   \<and> \<not> openable (world_init\<lparr>err_logdest := 4, openable := (\<lambda>_. False)\<rparr>)
         (take PATH_MAX sample_path)
   \<and> fst (err_setlogfile err_h_sample sample_path
             (world_init\<lparr>err_logdest := 4, openable := (\<lambda>_. False)\<rparr>)) = Returns FALSE
   \<and> err_file (snd (err_setlogfile err_h_sample sample_path
                       (world_init\<lparr>err_logdest := 4, openable := (\<lambda>_. False)\<rparr>))) = None
   \<and> err_logdest (snd (err_setlogfile err_h_sample sample_path
                          (world_init\<lparr>err_logdest := 4, openable := (\<lambda>_. False)\<rparr>)))
        AND LOGDEST_LOGFILE err_h_sample = 0
   \<and> err_logdest world_logging AND LOGDEST_LOGFILE err_h_sample \<noteq> 0
   \<and> (0 :: int) AND LOGDEST_LOGFILE err_h_sample = 0
   \<and> err_file world_logging = Some 0
   \<and> streams world_logging 0 \<noteq> None
   \<and> fst (err_setdest err_h_sample 0 world_logging) = Returns ()
   \<and> streams (snd (err_setdest err_h_sample 0 world_logging)) 0 = None
   \<and> err_logdest (snd (err_setdest err_h_sample 0 world_logging)) = 0"
proof -
  let ?closed = "world_init\<lparr>err_logdest := 4, openable := (\<lambda>_. False)\<rparr>"
  have "err_file_usable world_on_disk"
    and "openable world_on_disk (take PATH_MAX sample_path)"
    and "err_setlogfile err_h_sample sample_path world_on_disk
       = (Returns TRUE, world_logging\<lparr>err_logdest := 0\<rparr>)"
    and "err_file_usable ?closed"
    and "\<not> openable ?closed (take PATH_MAX sample_path)"
    and "err_logdest world_logging AND LOGDEST_LOGFILE err_h_sample \<noteq> 0"
    and "(0 :: int) AND LOGDEST_LOGFILE err_h_sample = 0"
    and "err_file world_logging = Some 0"
    and "streams world_logging 0 \<noteq> None"
    by (simp_all add: world_samples err_file_usable_def err_setlogfile_def libc_defs prog_defs
        Let_def)
  with err_file_after_configuration [of world_on_disk err_h_sample sample_path 0 0]
    err_file_after_configuration [of ?closed err_h_sample sample_path 0 0]
    err_file_after_configuration [of world_logging err_h_sample sample_path 0 0]
  show ?thesis
    by (simp add: FALSE_def)
qed

text \<open>
  Against claim C7 as stated: \<open>err_setlogfile\<close> opens the file whatever the
  destination is, so after it \<open>err_file\<close> is other than null while the file
  destination flag is clear.
\<close>

theorem err_file_open_without_file_destination:
  "err_file (snd (err_setlogfile err_h_sample sample_path world_on_disk)) = Some 0
   \<and> err_logdest (snd (err_setlogfile err_h_sample sample_path world_on_disk))
        AND LOGDEST_LOGFILE err_h_sample = 0"
  by (simp add: world_samples err_setlogfile_def libc_defs prog_defs Let_def)

text \<open>
  \<open>err_setdest\<close> closes the stream at line 385 and leaves the pointer to it in
  \<open>err_file\<close>: afterwards \<open>err_file\<close> is other than null and cannot be used.
\<close>

lemma err_setdest_keeps_closed_stream:
  "err_file (snd (err_setdest err_h_sample 0 world_logging)) = Some 0
   \<and> \<not> err_file_usable (snd (err_setdest err_h_sample 0 world_logging))"
  by (simp add: world_samples err_setdest_def err_file_usable_def libc_defs prog_defs)

subsection \<open>err\_reopen\<close>

text \<open>
  Claim C6 at a failing input: a process that logs to a file holding one line, with the
  truncate flag clear. \<open>err_reopen\<close> opens the path with mode \<open>w\<close>, whatever the flag
  is, so the line is lost: after one call, and after two, the file holds nothing but
  the message of \<open>err_reopen\<close> itself.
\<close>

theorem err_reopen_truncates_with_flag_clear:
  "err_truncate world_logging = 0
   \<and> files world_logging sample_path = Some ''old line\<newline>''
   \<and> fst (err_reopen err_h_sample 7 world_logging) = Returns ()
   \<and> files (snd (err_reopen err_h_sample 7 world_logging)) sample_path
       = Some ''2009-06-01 12:00:00 (00000007): Rotated logs\<newline>''
   \<and> files (snd (err_reopen err_h_sample 7 (snd (err_reopen err_h_sample 7 world_logging))))
         sample_path
       = Some ''2009-06-01 12:00:00 (00000007): Rotated logs\<newline>''"
  by (simp add: world_samples err_reopen_def err_setdest_def libc_defs prog_defs err_log_defs
      hex8_def hexdigit_def)

text \<open>
  The sibling \<open>err_setlogfile\<close> opens with mode \<open>a\<close> while the flag is clear: the
  line on disk stays.
\<close>

lemma err_setlogfile_appends_with_flag_clear:
  "files (snd (err_setlogfile err_h_sample sample_path world_on_disk)) sample_path
     = Some ''old line\<newline>''"
  by (simp add: world_samples err_setlogfile_def libc_defs prog_defs Let_def)

subsection \<open>err\_settruncate\<close>

lemma err_setlogfile_outcome:
  "fst (err_setlogfile H path s) = Undefined \<or> (\<exists>r. fst (err_setlogfile H path s) = Returns r)"
  by (auto simp: err_setlogfile_def prog_defs fclose_def fopen_def Let_def
      split: option.splits prod.splits)

lemma err_settruncate_outcome:
  "fst (err_settruncate H trunc s) = Returns TRUE \<or> fst (err_settruncate H trunc s) = Undefined"
proof -
  define s1 where "s1 = s\<lparr>err_truncate := trunc\<rparr>"
  obtain b s2 where m: "malloc s1 = (b, s2)"
    by (cases "malloc s1")
  obtain r s3 where e: "err_setlogfile H (err_filename s2) s2 = (r, s3)"
    by (cases "err_setlogfile H (err_filename s2) s2")
  with err_setlogfile_outcome [of H "err_filename s2" s2]
  have "r = Undefined \<or> (\<exists>v. r = Returns v)" by simp
  with m e show ?thesis
    by (auto simp: err_settruncate_def Let_def s1_def andthen_def ret_def)
qed

text \<open>
  What holds of claim C10 on every state: \<open>err_settruncate\<close> returns no value but
  \<open>TRUE\<close> and never ends the process; it does return, for every value of its
  argument, when \<open>err_file\<close> is null or an open stream; and when the argument is the
  value the flag has already, it returns at once with the whole state as it was.
\<close>

theorem err_settruncate_true:
  "(err_truncate s = trunc \<longrightarrow> err_settruncate H trunc s = (Returns TRUE, s))
   \<and> (err_file_usable s \<longrightarrow> fst (err_settruncate H trunc s) = Returns TRUE)
   \<and> (\<forall>v. fst (err_settruncate H trunc s) = Returns v \<longrightarrow> v = TRUE)
   \<and> (\<forall>c. fst (err_settruncate H trunc s) \<noteq> Exits c)"
proof -
  have same: "err_settruncate H trunc s = (Returns TRUE, s)" if "err_truncate s = trunc"
    using that by (simp add: err_settruncate_def)
  have usable: "fst (err_settruncate H trunc s) = Returns TRUE" if u: "err_file_usable s"
  proof -
    define s1 where "s1 = s\<lparr>err_truncate := trunc\<rparr>"
    obtain b s2 where m: "malloc s1 = (b, s2)"
      by (cases "malloc s1")
    then have s2: "s2 = s1\<lparr>allocs := tl (allocs s1)\<rparr>"
      by (rule malloc_frame)
    from u have u2: "err_file_usable s2"
      by (simp add: s2 s1_def err_file_usable_def split: option.splits)
    have "\<exists>r. fst (err_setlogfile H (err_filename s2) s2) = Returns r"
      using err_setlogfile_opened [OF u2, of "err_filename s2" H]
        err_setlogfile_failed [OF u2, of "err_filename s2" H]
      by (cases "openable s2 (take PATH_MAX (err_filename s2))") simp_all
    then obtain r s3 where "err_setlogfile H (err_filename s2) s2 = (Returns r, s3)"
      by (cases "err_setlogfile H (err_filename s2) s2") auto
    then show ?thesis
      using m by (simp add: err_settruncate_def Let_def s1_def andthen_def ret_def)
  qed
  from same usable err_settruncate_outcome [of H trunc s] show ?thesis
    by auto
qed

theorem err_settruncate_true_witness:
  "err_truncate world_logging = 0
   \<and> err_settruncate err_h_sample 0 world_logging = (Returns TRUE, world_logging)
   \<and> err_file_usable world_logging
   \<and> fst (err_settruncate err_h_sample 1 world_logging) = Returns TRUE"
proof -
  have "err_truncate world_logging = 0" and "err_file_usable world_logging"
    by (simp_all add: world_samples err_file_usable_def)
  with err_settruncate_true [of world_logging 0 err_h_sample]
    err_settruncate_true [of world_logging 1 err_h_sample]
  show ?thesis
    by simp
qed

text \<open>
  Claim C10 at a failing input: \<open>err_setdest\<close> has taken the file destination away
  and left the closed stream of line 385 behind \<open>err_file\<close>, which it does not set to
  null. \<open>err_settruncate\<close> with a new value goes to \<open>err_setlogfile\<close>, whose line
  347 closes that stream a second time: the call does not come back with \<open>TRUE\<close>.
\<close>

theorem settruncate_on_closed_stream:
  "fst (err_setdest err_h_sample 0 world_logging) = Returns ()
   \<and> fst (err_settruncate err_h_sample 1 (snd (err_setdest err_h_sample 0 world_logging)))
       = Undefined"
  by (simp add: world_samples err_setdest_def err_settruncate_def err_setlogfile_def
      libc_defs prog_defs Let_def)

subsection \<open>err\_setdebugmask\<close>

text \<open>\<open>err_log\<close> never writes the category mask.\<close>

lemma err_log_syslog_mask:
  "err_debugmask (snd (err_log_syslog H level errbuf so s)) = err_debugmask s"
  by (simp add: err_log_syslog_def prog_defs openlog_def syslog_def fprintf_stderr_def)

lemma err_log_sinks_mask:
  "err_debugmask (snd (err_log_sinks H level errbuf so tid s)) = err_debugmask s"
  by (simp add: err_log_sinks_def prog_defs fprintf_stderr_def fprintf_file_def
      split: option.splits)

lemma andthen_frame:
  assumes "\<And>w. f (snd (m w)) = f w" and "\<And>x w. f (snd (k x w)) = f w"
  shows "f (snd (andthen m k s)) = f s"
proof (cases "m s")
  case (Pair r s1)
  with assms(1) [of s] have "f s1 = f s" by simp
  with Pair assms(2) show ?thesis
    by (cases r) (simp_all add: andthen_def)
qed

lemma err_log_fanout_mask:
  "err_debugmask (snd (err_log_fanout H level e so tid s)) = err_debugmask s"
  unfolding err_log_fanout_def
  by (intro andthen_frame [where f = err_debugmask] err_log_syslog_mask err_log_sinks_mask)
     (simp add: err_log_leave_eq err_thread_del_def)

lemma err_log_mask:
  "err_debugmask (snd (err_log H level cat msg tid s)) = err_debugmask s"
proof (cases "filter_rejects level cat s \<or> (tid \<in> set (err_threadlist s) \<and> level \<noteq> 0)")
  case True
  then show ?thesis by (simp add: err_log_dropped)
next
  case False
  obtain b s1 where m: "malloc s = (b, s1)"
    by (cases "malloc s")
  then have s1: "s1 = s\<lparr>allocs := tl (allocs s)\<rparr>"
    by (rule malloc_frame)
  from False have nf: "\<not> filter_rejects level cat s" and nr: "tid \<notin> set (err_threadlist s) \<or> level = 0"
    by auto
  show ?thesis
  proof (cases b)
    case True
    with err_log_entered [OF nf nr, of s1 H msg] m show ?thesis
      by (simp add: err_log_fanout_mask s1)
  next
    case False
    with err_log_no_memory [OF nf nr, of s1 H msg] m show ?thesis
      by (simp add: fprintf_stderr_def s1)
  qed
qed

text \<open>
  A message of level 1 comes back from \<open>err_log\<close> when there is memory for every
  allocation and the log file, if the file destination is on, is behind a usable stream.
\<close>

lemma err_log_syslog_error:
  "fst (err_log_syslog H 1 e False s) = Returns ()
   \<and> err_logdest (snd (err_log_syslog H 1 e False s)) = err_logdest s
   \<and> err_file (snd (err_log_syslog H 1 e False s)) = err_file s
   \<and> streams (snd (err_log_syslog H 1 e False s)) = streams s"
  by (simp add: err_log_syslog_def prog_defs openlog_def syslog_def lvl2syslog_def)

lemma err_log_sinks_returns:
  assumes "err_logdest s AND LOGDEST_LOGFILE H \<noteq> 0 \<longrightarrow> err_file_usable s"
  shows "fst (err_log_sinks H level e so tid s) = Returns ()"
  using assms
  by (auto simp add: err_log_sinks_def prog_defs fprintf_stderr_def fprintf_file_def
      err_file_usable_def split: option.splits)

lemma err_log_error_returns:
  assumes "allocs s = []" and "err_logdest s AND LOGDEST_LOGFILE H \<noteq> 0 \<longrightarrow> err_file_usable s"
  shows "fst (err_log H 1 cat msg tid s) = Returns ()"
proof (cases "tid \<in> set (err_threadlist s)")
  case True
  then show ?thesis by (simp add: err_log_dropped)
next
  case False
  define s2 where "s2 = s\<lparr>err_threadlist := tid # err_threadlist s\<rparr>"
  define s3 where "s3 = snd (err_log_syslog H 1 (take 4095 msg) False s2)"
  define s4 where "s4 = snd (err_log_sinks H 1 (take 4095 msg) False tid s3)"
  have nf: "\<not> filter_rejects 1 cat s"
    by (simp add: filter_rejects_def)
  from assms(1) have m: "malloc s = (True, s)"
    by (simp add: malloc_def)
  from err_log_entered [OF nf _ m, of tid H msg] False
  have e: "err_log H 1 cat msg tid s = err_log_fanout H 1 (take 4095 msg) False tid s2"
    by (simp add: s2_def)
  note sy = err_log_syslog_error [of H "take 4095 msg" s2]
  then have 1: "err_log_syslog H 1 (take 4095 msg) False s2 = (Returns (), s3)"
    by (simp add: s3_def prod_eq_iff)
  from sy have "err_logdest s3 = err_logdest s" and "err_file s3 = err_file s"
    and "streams s3 = streams s"
    by (simp_all add: s3_def s2_def)
  moreover from this have "err_file_usable s3 = err_file_usable s"
    by (intro err_file_usable_same)
  ultimately have "err_logdest s3 AND LOGDEST_LOGFILE H \<noteq> 0 \<longrightarrow> err_file_usable s3"
    using assms(2) by simp
  from err_log_sinks_returns [OF this, of 1 "take 4095 msg" False tid]
  have 2: "err_log_sinks H 1 (take 4095 msg) False tid s3 = (Returns (), s4)"
    by (simp add: s4_def prod_eq_iff)
  show ?thesis
    by (simp add: e err_log_fanout_def andthen_def 1 2 err_log_leave_eq)
qed

lemma tokens_None: "strtok_r str = None \<Longrightarrow> tokens str = []"
  by (simp add: tokens.simps)

lemma tokens_Some: "strtok_r str = Some (token, rest) \<Longrightarrow> tokens str = token # tokens rest"
  by (subst tokens.simps) simp

lemma setdebugmask_loop_mask:
  "err_debugmask (snd (setdebugmask_loop H tid str s)) = known_bits (tokens str) (err_debugmask s)"
proof (induction H tid str s rule: setdebugmask_loop.induct)
  case (1 H tid str s)
  show ?case
  proof (cases "strtok_r str")
    case None
    have "err_debugmask (snd (andthen (DPRINTF H (E_INF H) (L_MISC H)
                     (''Debug mask is 0x'' @ hex8 (err_debugmask s) @ ''\<newline>'') tid)
            (\<lambda>_. ret 0) s)) = err_debugmask s"
      by (rule andthen_frame [where f = err_debugmask]) (simp_all add: DPRINTF_def err_log_mask ret_def)
    with None show ?thesis
      by (simp add: setdebugmask_loop.simps [of H tid str s] tokens_None known_bits_def)
  next
    case (Some p)
    obtain token rest where p: "p = (token, rest)"
      by (cases p)
    note tk = tokens_Some [OF Some [unfolded p]]
    show ?thesis
    proof (cases "category_bit token")
      case None
      have "err_debugmask (snd (andthen (DPRINTF H (E_LOG H) (L_MISC H)
                          (''Unknown module: '' @ token @ ''\<newline>'') tid)
                 (\<lambda>_. ret 1) s)) = err_debugmask s"
        by (rule andthen_frame [where f = err_debugmask]) (simp_all add: DPRINTF_def err_log_mask ret_def)
      with None Some p tk show ?thesis
        by (simp add: setdebugmask_loop.simps [of H tid str s] known_bits_def
            category_bit_def [symmetric])
    next
      case (Some rack)
      have "err_debugmask (snd (setdebugmask_loop H tid rest (s\<lparr>err_debugmask := err_debugmask s OR rack\<rparr>)))
              = known_bits (tokens rest) (err_debugmask (s\<lparr>err_debugmask := err_debugmask s OR rack\<rparr>))"
        by (rule "1.IH" [OF \<open>strtok_r str = Some p\<close> p [symmetric] Some [unfolded category_bit_def]])
      with Some \<open>strtok_r str = Some p\<close> p tk show ?thesis
        by (simp add: setdebugmask_loop.simps [of H tid str s] known_bits_def
            category_bit_def [symmetric])
    qed
  qed
qed

lemma setdebugmask_loop_unknown:
  assumes "\<exists>t \<in> set (tokens str). category_bit t = None"
    and "allocs s = []" and "E_LOG H = 1"
    and "err_logdest s AND LOGDEST_LOGFILE H \<noteq> 0 \<longrightarrow> err_file_usable s"
  shows "fst (setdebugmask_loop H tid str s) = Returns 1"
  using assms
proof (induction H tid str s rule: setdebugmask_loop.induct)
  case (1 H tid str s)
  show ?case
  proof (cases "strtok_r str")
    case None
    with "1.prems"(1) show ?thesis by (simp add: tokens_None)
  next
    case (Some p)
    obtain token rest where p: "p = (token, rest)"
      by (cases p)
    note tk = tokens_Some [OF Some [unfolded p]]
    show ?thesis
    proof (cases "category_bit token")
      case None
      from err_log_error_returns [OF "1.prems"(2,4), of "L_MISC H" "''Unknown module: '' @ token @ ''\<newline>''" tid]
      have "fst (andthen (DPRINTF H (E_LOG H) (L_MISC H)
                          (''Unknown module: '' @ token @ ''\<newline>'') tid)
                 (\<lambda>_. ret 1) s) = Returns 1"
        by (auto simp: DPRINTF_def "1.prems"(3) andthen_def ret_def split: prod.splits outcome.splits)
      with None Some p show ?thesis
        by (simp add: setdebugmask_loop.simps [of H tid str s] category_bit_def [symmetric])
    next
      case (Some rack)
      let ?s = "s\<lparr>err_debugmask := err_debugmask s OR rack\<rparr>"
      from Some "1.prems"(1) tk have "\<exists>t \<in> set (tokens rest). category_bit t = None"
        by auto
      moreover from "1.prems" have "allocs ?s = []"
        and "err_logdest ?s AND LOGDEST_LOGFILE H \<noteq> 0 \<longrightarrow> err_file_usable ?s"
        by (simp_all add: err_file_usable_def split: option.splits)
      ultimately have "fst (setdebugmask_loop H tid rest ?s) = Returns 1"
        using "1.prems"(3)
        by (intro "1.IH" [OF \<open>strtok_r str = Some p\<close> p [symmetric] Some [unfolded category_bit_def]])
      with Some \<open>strtok_r str = Some p\<close> p show ?thesis
        by (simp add: setdebugmask_loop.simps [of H tid str s] category_bit_def [symmetric])
    qed
  qed
qed

lemma err_setdebugmask_on_unknown:
  assumes "\<exists>t \<in> set (tokens list). category_bit t = None"
    and "allocs s = []" and "E_LOG H = 1"
    and "err_logdest s AND LOGDEST_LOGFILE H \<noteq> 0 \<longrightarrow> err_file_usable s"
  shows "fst (err_setdebugmask H list tid s) = Returns 1
       \<and> err_debugmask (snd (err_setdebugmask H list tid s))
           = known_bits (tokens list) 0x80000000"
proof -
  let ?s = "s\<lparr>err_debugmask := 0x80000000\<rparr>"
  from assms(2) have m: "malloc ?s = (True, ?s)"
    by (simp add: malloc_def)
  then have e: "err_setdebugmask H list tid s = setdebugmask_loop H tid list ?s"
    by (simp add: err_setdebugmask_def Let_def)
  from assms have "allocs ?s = []"
    and "err_logdest ?s AND LOGDEST_LOGFILE H \<noteq> 0 \<longrightarrow> err_file_usable ?s"
    by (simp_all add: err_file_usable_def split: option.splits)
  from setdebugmask_loop_unknown [OF assms(1) this(1) assms(3) this(2), of tid]
    setdebugmask_loop_mask [of H tid list ?s]
  show ?thesis
    by (simp add: e)
qed

lemma tokens_sample:
  "tokens ''config,bogus,database'' = [''config'', ''bogus'', ''database'']"
  by (simp add: tokens_Some tokens_None strtok_r_def)

lemma category_bit_sample:
  "category_bit ''config'' = Some 1 \<and> category_bit ''bogus'' = None"
  by (simp add: category_bit_def err_categorylist_def tolower_def)

text \<open>
  Claim C5, as the code has it. Given a list with a token that is no category name,
  with memory for every allocation, \<open>E_LOG\<close> being level 1 and the log file, if the
  file destination is on, behind a usable stream, \<open>err_setdebugmask\<close> returns 1, its
  report of failure, and leaves in the category mask the bit that is always on together
  with the bits of the tokens in front of the first unknown one. The mask from before
  the call is gone: line 404 overwrites it before the list is read.
\<close>

theorem err_setdebugmask_unknown_token:
  assumes "\<exists>t \<in> set (tokens list). category_bit t = None"
    and "allocs s = []" and "E_LOG H = 1"
    and "err_logdest s AND LOGDEST_LOGFILE H \<noteq> 0 \<longrightarrow> err_file_usable s"
  shows "fst (err_setdebugmask H list tid s) = Returns 1
       \<and> err_debugmask (snd (err_setdebugmask H list tid s))
           = known_bits (tokens list) 0x80000000"
  using assms by (rule err_setdebugmask_on_unknown)

theorem err_setdebugmask_unknown_token_witness:
  "(\<exists>t \<in> set (tokens ''config,bogus,database''). category_bit t = None)
   \<and> allocs world_init = []
   \<and> E_LOG err_h_sample = 1
   \<and> err_logdest world_init AND LOGDEST_LOGFILE err_h_sample = 0
   \<and> fst (err_setdebugmask err_h_sample ''config,bogus,database'' 7 world_init) = Returns 1
   \<and> err_debugmask (snd (err_setdebugmask err_h_sample ''config,bogus,database'' 7 world_init))
       = 0x80000001"
proof -
  have 1: "\<exists>t \<in> set (tokens ''config,bogus,database''). category_bit t = None"
    by (simp add: tokens_sample category_bit_sample)
  have 2: "allocs world_init = []" and 3: "E_LOG err_h_sample = 1"
    and 4: "err_logdest world_init AND LOGDEST_LOGFILE err_h_sample = 0"
    by (simp_all add: world_samples)
  from 4 have 5: "err_logdest world_init AND LOGDEST_LOGFILE err_h_sample \<noteq> 0
      \<longrightarrow> err_file_usable world_init"
    by simp
  have "known_bits (tokens ''config,bogus,database'') 0x80000000 = 0x80000001"
    by (simp add: tokens_sample known_bits_def category_bit_sample)
  with err_setdebugmask_unknown_token [OF 1 2 3 5, of 7] 1 2 3 4 show ?thesis
    by simp
qed

text \<open>
  Against claim C5 as stated: with every bit of the mask set before the call, the list
  \<open>config,bogus\<close> leaves the mask holding the bit of \<open>config\<close>, the one token in front
  of the unknown one, and the bit that is always on, and nothing else.
\<close>

theorem err_setdebugmask_partial_mask:
  "err_debugmask world_init = 0xFFFFFFFF
   \<and> fst (err_setdebugmask err_h_sample ''config,bogus'' 7 world_init) = Returns 1
   \<and> err_debugmask (snd (err_setdebugmask err_h_sample ''config,bogus'' 7 world_init))
       = 0x80000001"
proof -
  have t: "tokens ''config,bogus'' = [''config'', ''bogus'']"
    by (simp add: tokens_Some tokens_None strtok_r_def)
  then have 1: "\<exists>t \<in> set (tokens ''config,bogus''). category_bit t = None"
    by (simp add: category_bit_sample)
  have 2: "allocs world_init = []" and 3: "E_LOG err_h_sample = 1"
    and 5: "err_logdest world_init AND LOGDEST_LOGFILE err_h_sample \<noteq> 0
      \<longrightarrow> err_file_usable world_init"
    and 6: "err_debugmask world_init = 0xFFFFFFFF"
    by (simp_all add: world_samples)
  have "known_bits (tokens ''config,bogus'') 0x80000000 = 0x80000001"
    by (simp add: t known_bits_def category_bit_sample)
  with err_setdebugmask_on_unknown [OF 1 2 3 5, of 7] 6 show ?thesis
    by simp
qed

end
